theory Spec2Isabelle
  imports Main "HOL-Library.Sublist" "HOL-Library.Multiset"
begin

section \<open>Shared data model\<close>

text \<open>
  The program is TypeScript. A rejected promise or a thrown exception is the left
  injection of a sum; the thrown value is kept as its message. Numbers that the
  repository's types call counts (breadth, depth, sample size) are unbounded integers.
  Strings are lists of characters.
\<close>

datatype error = Error string | ConfigurationError string

record SerpQuery =
  query :: string
  researchGoal :: string

text \<open>One item of \<open>SearchResponse.data\<close>: url and markdown may both be absent.\<close>

record SearchItem =
  url :: "string option"
  markdown :: "string option"

type_synonym SearchResponse = "SearchItem list"

text \<open>The object returned by \<open>processSerpResult\<close>.\<close>

record LearningBatch =
  batchLearnings :: "string list"
  followUpQuestions :: "string list"

record ResearchResult =
  learnings :: "string list"
  visitedUrls :: "string list"

text \<open>A contact, as \<open>types.ts\<close> declares it; \<open>number\<close> and \<open>department\<close> are optional.\<close>

record Contact =
  name :: string
  email :: string
  company :: string
  tags :: "string list"
  position :: string
  city :: string
  stateProvince :: string
  country :: string
  number :: "string option"
  timeZone :: string
  department :: "string option"
  priority :: int
  signal :: string
  signalLevel :: string
  compliment :: string
  industry :: string
  links :: string
  source :: string

record Correction =
  corrEmail :: string
  field :: string
  before :: string
  after :: string
  reason :: string

record AuditingCriteria =
  sampleSize :: int
  verificationDepth :: int

text \<open>
  The collaborators are the language model (behind \<open>generateObject\<close>), the search
  service (\<open>firecrawl.search\<close>), the process environment and the random source. Each
  is a field of the environment: a function of the arguments the source passes,
  returning the resolved value or the error of the rejection.
  \<open>bypass\<close> is \<open>process.env.BYPASS_DEEP_RESEARCH === 'true'\<close>; \<open>mockContacts\<close> is
  what the bypass branch of \<open>generateContactsFromLearnings\<close> returns (the mock file or
  the built-in sample); \<open>shuffle\<close> is \<open>[...array].sort(() => 0.5 - Math.random())\<close>;
  \<open>toLowerCase\<close> is \<open>String.prototype.toLowerCase\<close> of the runtime, which folds
  every cased letter of Unicode: a table that is not written out here, so the
  function is taken as it comes and every statement holds for whatever it computes.
\<close>

record env =
  bypass :: bool
  generateObjectQueries :: "string \<Rightarrow> string list \<Rightarrow> int \<Rightarrow> error + SerpQuery list"
  firecrawlSearch :: "string \<Rightarrow> error + SearchResponse"
  generateObjectLearnings :: "string \<Rightarrow> SearchResponse \<Rightarrow> int \<Rightarrow> error + LearningBatch"
  generateObjectContacts :: "string list \<Rightarrow> string list \<Rightarrow> error + Contact list"
  mockContacts :: "Contact list"
  shuffle :: "Contact list \<Rightarrow> Contact list"
  toLowerCase :: "string \<Rightarrow> string"

section \<open>JavaScript library functions\<close>

text \<open>\<open>xs.slice(0, n)\<close>: a negative end counts from the end of the array.\<close>

definition slice0 :: "'a list \<Rightarrow> int \<Rightarrow> 'a list" where
  "slice0 xs n = (if n < 0 then take (nat (int (length xs) + n)) xs else take (nat n) xs)"

text \<open>lodash \<open>compact\<close> on optional strings: absent and empty values are dropped.\<close>

fun compact :: "string option list \<Rightarrow> string list" where
  "compact [] = []"
| "compact (None # xs) = compact xs"
| "compact (Some s # xs) = (if s = [] then compact xs else s # compact xs)"

text \<open>
  \<open>[...new Set(xs)]\<close>: a set keeps the first occurrence of each value, in insertion
  order.
\<close>

definition setAdd :: "'a list \<Rightarrow> 'a \<Rightarrow> 'a list" where
  "setAdd s x = (if x \<in> set s then s else s @ [x])"

definition newSet :: "'a list \<Rightarrow> 'a list" where
  "newSet xs = foldl setAdd [] xs"

text \<open>\<open>Math.ceil(b / 2)\<close> on an integer.\<close>

definition ceilHalf :: "int \<Rightarrow> int" where
  "ceilHalf b = (b + 1) div 2"

text \<open>
  \<open>String.prototype.trim\<close>, on the white space of ASCII. The trimmed string is only
  ever handed to the language model as the next query.
\<close>

definition isSpace :: "char \<Rightarrow> bool" where
  "isSpace c = (c \<in> set [CHR 0x09, CHR 0x0A, CHR 0x0B, CHR 0x0C, CHR 0x0D, CHR '' ''])"

definition trim :: "string \<Rightarrow> string" where
  "trim s = rev (dropWhile isSpace (rev (dropWhile isSpace s)))"

text \<open>
  \<open>Promise.all\<close>: the list of values when every promise resolves, the first rejection
  (here: in list order) otherwise.
\<close>

fun promiseAll :: "(error + 'a) list \<Rightarrow> error + 'a list" where
  "promiseAll [] = Inr []"
| "promiseAll (Inl e # ps) = Inl e"
| "promiseAll (Inr v # ps) = (case promiseAll ps of Inl e \<Rightarrow> Inl e | Inr vs \<Rightarrow> Inr (v # vs))"

section \<open>The research scheduler\<close>

definition generateSerpQueries ::
  "env \<Rightarrow> string \<Rightarrow> int \<Rightarrow> string list \<Rightarrow> error + SerpQuery list" where
  "generateSerpQueries env q numQueries ls =
     (case generateObjectQueries env q ls numQueries of
        Inl e \<Rightarrow> Inl e
      | Inr queries \<Rightarrow> Inr (slice0 queries numQueries))"

definition processSerpResult ::
  "env \<Rightarrow> string \<Rightarrow> SearchResponse \<Rightarrow> int \<Rightarrow> error + LearningBatch" where
  "processSerpResult env q result numFollowUpQuestions =
     generateObjectLearnings env q result numFollowUpQuestions"

definition mockResult :: ResearchResult where
  "mockResult =
     \<lparr> learnings =
         [''Mock learning 1: Found several NY private schools looking for CS/AI leaders'',
          ''Mock learning 2: Riverdale Country School posted a Director of Technology position'',
          ''Mock learning 3: Hackley School received grant funding for AI programs'',
          ''Mock learning 4: Trinity School is expanding their computer science department''],
       visitedUrls =
         [''https://riverdale.org/careers'',
          ''https://hackleyschool.edu/employment'',
          ''https://trinityschoolnyc.org/about/careers''] \<rparr>"

definition emptyResult :: ResearchResult where
  "emptyResult = \<lparr> learnings = [], visitedUrls = [] \<rparr>"

text \<open>The follow-up query of a branch: the template literal, trimmed.\<close>

definition nextQuery :: "SerpQuery \<Rightarrow> LearningBatch \<Rightarrow> string" where
  "nextQuery serpQuery newLearnings =
     trim ([CHR 0x0A] @ ''            Previous research goal: '' @ researchGoal serpQuery @
           [CHR 0x0A] @ ''            Follow-up research directions: '' @
           concat (map (\<lambda>f. [CHR 0x0A] @ f) (followUpQuestions newLearnings)) @
           [CHR 0x0A] @ ''          '')"

text \<open>
  \<open>deepResearch\<close>. Each sub-query is one branch. Inside a branch the search and the
  extraction of learnings are awaited inside \<open>try\<close>, so their failure is caught and the
  branch resolves to the empty result. The recursive call is returned without
  \<open>await\<close>: the branch's promise adopts the promise of the recursive call after the
  \<open>try\<close> block has been left, so a rejection of the recursive call is the rejection
  of the branch. The progress callback is not modelled.
\<close>

function deepResearch ::
  "env \<Rightarrow> string \<Rightarrow> int \<Rightarrow> int \<Rightarrow> string list \<Rightarrow> string list \<Rightarrow> error + ResearchResult"
where
  "deepResearch env q breadth depth ls urls =
     (if bypass env then Inr mockResult
      else
        case generateSerpQueries env q breadth ls of
          Inl e \<Rightarrow> Inl e
        | Inr serpQueries \<Rightarrow>
            (case promiseAll (map (\<lambda>serpQuery.
                case firecrawlSearch env (query serpQuery) of
                  Inl e \<Rightarrow> Inr emptyResult
                | Inr result \<Rightarrow>
                    (case processSerpResult env (query serpQuery) result (ceilHalf breadth) of
                       Inl e \<Rightarrow> Inr emptyResult
                     | Inr newLearnings \<Rightarrow>
                         (if depth - 1 > 0
                          then deepResearch env (nextQuery serpQuery newLearnings)
                                 (ceilHalf breadth) (depth - 1)
                                 (ls @ batchLearnings newLearnings)
                                 (urls @ compact (map url result))
                          else Inr \<lparr> learnings = ls @ batchLearnings newLearnings,
                                     visitedUrls = urls @ compact (map url result) \<rparr>)))
                serpQueries) of
               Inl e \<Rightarrow> Inl e
             | Inr results \<Rightarrow>
                 Inr \<lparr> learnings = newSet (concat (map learnings results)),
                       visitedUrls = newSet (concat (map visitedUrls results)) \<rparr>))"
  by pat_completeness auto
termination
  by (relation "measure (\<lambda>(env, q, breadth, depth, ls, urls). nat depth)") auto

declare deepResearch.simps [simp del]

text \<open>
  One dispatched branch, the body of the function handed to \<open>limit\<close>, named so
  that statements can speak about a single branch.
\<close>

definition researchBranch ::
  "env \<Rightarrow> int \<Rightarrow> int \<Rightarrow> string list \<Rightarrow> string list \<Rightarrow> SerpQuery \<Rightarrow> error + ResearchResult"
where
  "researchBranch env breadth depth ls urls serpQuery =
     (case firecrawlSearch env (query serpQuery) of
        Inl e \<Rightarrow> Inr emptyResult
      | Inr result \<Rightarrow>
          (case processSerpResult env (query serpQuery) result (ceilHalf breadth) of
             Inl e \<Rightarrow> Inr emptyResult
           | Inr newLearnings \<Rightarrow>
               (if depth - 1 > 0
                then deepResearch env (nextQuery serpQuery newLearnings)
                       (ceilHalf breadth) (depth - 1)
                       (ls @ batchLearnings newLearnings)
                       (urls @ compact (map url result))
                else Inr \<lparr> learnings = ls @ batchLearnings newLearnings,
                           visitedUrls = urls @ compact (map url result) \<rparr>)))"

text \<open>The merge after \<open>Promise.all\<close>.\<close>

definition mergeResults :: "ResearchResult list \<Rightarrow> ResearchResult" where
  "mergeResults results =
     \<lparr> learnings = newSet (concat (map learnings results)),
       visitedUrls = newSet (concat (map visitedUrls results)) \<rparr>"

section \<open>The audit engine\<close>

text \<open>
  What \<open>String.prototype.toLowerCase\<close> computes on a string of ASCII characters;
  the concrete inputs below are such strings.
\<close>

definition lowerChar :: "char \<Rightarrow> char" where
  "lowerChar c =
     (case map_of (zip ''ABCDEFGHIJKLMNOPQRSTUVWXYZ'' ''abcdefghijklmnopqrstuvwxyz'') c of
        None \<Rightarrow> c
      | Some l \<Rightarrow> l)"

definition asciiLowerCase :: "string \<Rightarrow> string" where
  "asciiLowerCase s = map lowerChar s"

text \<open>\<open>s.includes(t)\<close>: \<open>t\<close> occurs in \<open>s\<close> as a contiguous substring.\<close>

fun includes_str :: "string \<Rightarrow> string \<Rightarrow> bool" where
  "includes_str [] t = (t = [])"
| "includes_str (c # s) t = (prefix t (c # s) \<or> includes_str s t)"

text \<open>\<open>xs.join(sep)\<close>.\<close>

fun joinWith :: "string \<Rightarrow> string list \<Rightarrow> string" where
  "joinWith sep [] = []"
| "joinWith sep [x] = x"
| "joinWith sep (x # y # ys) = x @ sep @ joinWith sep (y # ys)"

text \<open>
  A \<open>Map\<close> keeps its keys in insertion order; \<open>set\<close> on a present key replaces
  the value in place.
\<close>

fun mapSet :: "'k \<Rightarrow> 'v \<Rightarrow> ('k \<times> 'v) list \<Rightarrow> ('k \<times> 'v) list" where
  "mapSet k v [] = [(k, v)]"
| "mapSet k v ((k', v') # m) = (if k' = k then (k, v) # m else (k', v') # mapSet k v m)"

definition mapValues :: "('k \<times> 'v) list \<Rightarrow> 'v list" where
  "mapValues m = map snd m"

definition getRandomSample :: "('a list \<Rightarrow> 'a list) \<Rightarrow> 'a list \<Rightarrow> int \<Rightarrow> 'a list" where
  "getRandomSample shuffled array n =
     (if int (length array) \<le> n then array else slice0 (shuffled array) n)"

definition generateContactsFromLearnings ::
  "env \<Rightarrow> string list \<Rightarrow> string list \<Rightarrow> error + Contact list" where
  "generateContactsFromLearnings env ls contactHierarchy =
     (if bypass env then Inr (mockContacts env)
      else if ls = [] then Inr []
      else generateObjectContacts env ls contactHierarchy)"

definition numberText :: "Contact \<Rightarrow> string" where
  "numberText c = (case number c of None \<Rightarrow> ''undefined'' | Some n \<Rightarrow> n)"

definition verificationQuery :: "Contact \<Rightarrow> string \<Rightarrow> string" where
  "verificationQuery contact originalQuery =
     [CHR 0x0A] @ ''Verify information for '' @ name contact @ '' at '' @ company contact @
     '' in '' @ position contact @ '' role, with '' @ email contact @ '' and '' @
     numberText contact @ ''.'' @
     [CHR 0x0A] @ ''Search for: '' @ name contact @ '' '' @ company contact @ '' '' @
     position contact @ '' '' @ email contact @ '' '' @ numberText contact @ '','' @
     [CHR 0x0A] @ ''Confirm: email, position, department, location, recent activity'' @
     [CHR 0x0A] @ ''Context: '' @ originalQuery @
     [CHR 0x0A] @ ''Strict Rules:'' @
     [CHR 0x0A] @ ''  - Back everything you say with actual sources.'' @
     [CHR 0x0A] @ ''  - There are heavy penalties for information that are made up/don'' @
     [CHR 0x27] @ ''t come from an actual source'' @
     [CHR 0x0A] @ ''  - If you are not sure about the factual correctness of a information, leave it blank. '' @
     [CHR 0x0A, CHR 0x0A]"

text \<open>The predicate handed to \<open>verifiedContacts.find\<close>.\<close>

definition isMatch :: "env \<Rightarrow> Contact \<Rightarrow> Contact \<Rightarrow> bool" where
  "isMatch env contact c =
     (includes_str (toLowerCase env (name c)) (toLowerCase env (name contact)) \<or>
      toLowerCase env (email c) = toLowerCase env (email contact) \<or>
      (toLowerCase env (company c) = toLowerCase env (company contact) \<and>
       includes_str (toLowerCase env (position c)) (toLowerCase env (position contact))))"

text \<open>\<open>verifiedContacts.find(...) || verifiedContacts[0]\<close>; \<open>None\<close> is \<open>undefined\<close>.\<close>

definition findMatch :: "env \<Rightarrow> Contact \<Rightarrow> Contact list \<Rightarrow> Contact option" where
  "findMatch env contact verifiedContacts =
     (case find (isMatch env contact) verifiedContacts of
        Some c \<Rightarrow> Some c
      | None \<Rightarrow> (case verifiedContacts of [] \<Rightarrow> None | c # cs \<Rightarrow> Some c))"

text \<open>The compared fields, each with \<open>String(contact[field] || '')\<close>.\<close>

definition fields :: "(string \<times> (Contact \<Rightarrow> string)) list" where
  "fields =
     [(''name'', name), (''email'', email), (''company'', company), (''position'', position),
      (''department'', \<lambda>c. case department c of None \<Rightarrow> [] | Some d \<Rightarrow> d),
      (''city'', city), (''stateProvince'', stateProvince), (''country'', country),
      (''industry'', industry), (''tags'', \<lambda>c. joinWith '','' (tags c))]"

definition diffContact :: "Contact \<Rightarrow> Contact \<Rightarrow> Correction list" where
  "diffContact contact verified =
     concat (map (\<lambda>(f, get).
        let originalValue = get contact; verifiedValue = get verified in
        if originalValue \<noteq> [] \<and> verifiedValue \<noteq> [] \<and> originalValue \<noteq> verifiedValue
        then [\<lparr> corrEmail = email contact, field = f, before = originalValue,
                after = verifiedValue,
                reason = ''Verification research found updated information'' \<rparr>]
        else []) fields)"

text \<open>
  \<open>{ ...contact, ...verifiedContact, email: verifiedContact.email || contact.email }\<close>:
  every field the candidate has overwrites the original's; an optional field the
  candidate lacks keeps the original's value.
\<close>

definition mergeContact :: "Contact \<Rightarrow> Contact \<Rightarrow> Contact" where
  "mergeContact contact verified =
     verified
       \<lparr> number := (case number verified of None \<Rightarrow> number contact | Some n \<Rightarrow> Some n),
         department :=
           (case department verified of None \<Rightarrow> department contact | Some d \<Rightarrow> Some d),
         email := (if email verified \<noteq> [] then email verified else email contact) \<rparr>"

record VerifyResult =
  verifiedContact :: Contact
  corrections :: "Correction list"

definition unverified :: "Contact \<Rightarrow> VerifyResult" where
  "unverified contact = \<lparr> verifiedContact = contact, corrections = [] \<rparr>"

text \<open>
  \<open>verifyContact\<close>: both collaborator calls are awaited inside \<open>try\<close>; the
  \<open>catch\<close> and the missing match return the contact as it came.
\<close>

definition verifyContact :: "env \<Rightarrow> Contact \<Rightarrow> string \<Rightarrow> int \<Rightarrow> VerifyResult" where
  "verifyContact env contact originalQuery depth =
     (case deepResearch env (verificationQuery contact originalQuery) 2 depth [] [] of
        Inl e \<Rightarrow> unverified contact
      | Inr r \<Rightarrow>
          (case generateContactsFromLearnings env (learnings r) [position contact] of
             Inl e \<Rightarrow> unverified contact
           | Inr verifiedContacts \<Rightarrow>
               (case findMatch env contact verifiedContacts of
                  None \<Rightarrow> unverified contact
                | Some v \<Rightarrow>
                    \<lparr> verifiedContact = mergeContact contact v,
                      corrections = diffContact contact v \<rparr>)))"

record AuditResult =
  verifiedContacts :: "Contact list"
  allCorrections :: "Correction list"

definition mockCorrections :: "Contact list \<Rightarrow> Correction list" where
  "mockCorrections contacts =
     [\<lparr> corrEmail = (case contacts of c # cs \<Rightarrow> if email c \<noteq> [] then email c else ''test@example.com''
                        | [] \<Rightarrow> ''test@example.com''),
        field = ''position'', before = ''Director'', after = ''Head of Technology'',
        reason = ''Mock verification found updated title'' \<rparr>,
      \<lparr> corrEmail = (case contacts of c # d # cs \<Rightarrow> if email d \<noteq> [] then email d else ''test2@example.com''
                        | _ \<Rightarrow> ''test2@example.com''),
        field = ''department'', before = ''IT'', after = ''Computer Science'',
        reason = ''Mock audit found more specific department'' \<rparr>]"

text \<open>
  The loop over the sample. \<open>verifyContact\<close> returns on every path, so the
  \<open>catch\<close> around its call is never entered.
\<close>

fun auditLoop ::
  "env \<Rightarrow> string \<Rightarrow> int \<Rightarrow> Contact list \<Rightarrow>
   (string \<times> Contact) list \<times> Correction list \<Rightarrow> (string \<times> Contact) list \<times> Correction list"
where
  "auditLoop env originalQuery depth [] st = st"
| "auditLoop env originalQuery depth (contact # rest) (m, acc) =
     (let r = verifyContact env contact originalQuery depth
      in auditLoop env originalQuery depth rest
           (mapSet (email contact) (verifiedContact r) m, acc @ corrections r))"

definition initialMap :: "Contact list \<Rightarrow> (string \<times> Contact) list" where
  "initialMap contacts = foldl (\<lambda>m c. mapSet (email c) c m) [] contacts"

definition auditContacts :: "env \<Rightarrow> Contact list \<Rightarrow> AuditingCriteria \<Rightarrow> string \<Rightarrow> AuditResult" where
  "auditContacts env contacts criteria originalQuery =
     (if contacts = [] then \<lparr> verifiedContacts = [], allCorrections = [] \<rparr>
      else if bypass env
      then \<lparr> verifiedContacts = contacts, allCorrections = mockCorrections contacts \<rparr>
      else
        let sampleContacts = getRandomSample (shuffle env) contacts (sampleSize criteria);
            (m, acc) = auditLoop env originalQuery (verificationDepth criteria) sampleContacts
                         (initialMap contacts, [])
        in \<lparr> verifiedContacts = mapValues m, allCorrections = acc \<rparr>)"

text \<open>
  The matching rule in the words of the specification, to be compared with
  \<open>findMatch\<close>: email first, then name (either direction) together with
  organization and role, then organization and role alone, then the first candidate.
\<close>

definition emailMatch :: "env \<Rightarrow> Contact \<Rightarrow> Contact \<Rightarrow> bool" where
  "emailMatch env contact c = (toLowerCase env (email c) = toLowerCase env (email contact))"

definition nameMatch :: "env \<Rightarrow> Contact \<Rightarrow> Contact \<Rightarrow> bool" where
  "nameMatch env contact c =
     (includes_str (toLowerCase env (name c)) (toLowerCase env (name contact)) \<or>
      includes_str (toLowerCase env (name contact)) (toLowerCase env (name c)))"

definition orgRoleMatch :: "env \<Rightarrow> Contact \<Rightarrow> Contact \<Rightarrow> bool" where
  "orgRoleMatch env contact c =
     (toLowerCase env (company c) = toLowerCase env (company contact) \<and>
      includes_str (toLowerCase env (position c)) (toLowerCase env (position contact)))"

definition selectByPriority :: "env \<Rightarrow> Contact \<Rightarrow> Contact list \<Rightarrow> Contact option" where
  "selectByPriority env contact candidates =
     (case find (emailMatch env contact) candidates of
        Some c \<Rightarrow> Some c
      | None \<Rightarrow>
          (case find (\<lambda>c. nameMatch env contact c \<and> orgRoleMatch env contact c) candidates of
             Some c \<Rightarrow> Some c
           | None \<Rightarrow>
               (case find (orgRoleMatch env contact) candidates of
                  Some c \<Rightarrow> Some c
                | None \<Rightarrow> (case candidates of [] \<Rightarrow> None | c # cs \<Rightarrow> Some c))))"

section \<open>The text chunker\<close>

text \<open>
  Modelled from the spec: the parameters of the chunker, \<open>chunkSize\<close> and
  \<open>chunkOverlap\<close>, as the unit tests pass them to the constructor.
\<close>

record TextSplitterParams =
  chunkSize :: int
  chunkOverlap :: int

text \<open>
  Modelled from the spec: the constructor of \<open>RecursiveCharacterTextSplitter\<close>
  (\<open>src/ai/text-splitter.ts\<close> is not among the sources; its unit tests and its caller
  \<open>trimPrompt\<close> are). The specification: \<open>chunkOverlap < chunkSize\<close>, else the
  construction fails with a configuration error; the message is the one the unit tests
  expect.
\<close>

definition RecursiveCharacterTextSplitter :: "int \<Rightarrow> int \<Rightarrow> error + TextSplitterParams" where
  "RecursiveCharacterTextSplitter csize overlap =
     (if overlap \<ge> csize then Inl (ConfigurationError ''Cannot have chunkOverlap >= chunkSize'')
      else Inr \<lparr> chunkSize = csize, chunkOverlap = overlap \<rparr>)"

text \<open>
  Modelled from the spec: the separators in priority order, paragraph break, line
  break, sentence-ending punctuation, word boundary; the finest level, the single
  character, is the empty list of separators in \<open>splitUnits\<close>.
\<close>

definition separators :: "string list" where
  "separators = [[CHR 0x0A, CHR 0x0A], [CHR 0x0A], ''.'', '' '']"

text \<open>
  Modelled from the spec: cutting a text at one separator. The specification asks that
  the chunks cover the original text, so each piece keeps the separator that ends it.
\<close>

function splitAfter :: "string \<Rightarrow> string \<Rightarrow> string \<Rightarrow> string list" where
  "splitAfter sep acc [] = (if acc = [] then [] else [acc])"
| "splitAfter sep acc (c # cs) =
     (if sep \<noteq> [] \<and> prefix sep (c # cs)
      then (acc @ sep) # splitAfter sep [] (drop (length sep) (c # cs))
      else splitAfter sep (acc @ [c]) cs)"
  by pat_completeness auto
termination
  by (relation "measure (\<lambda>(sep, acc, t). length t)") auto

text \<open>
  Modelled from the spec: "try separators in priority order; for any piece still too
  large, recurse with the next finer separator". A piece fits when its length is at
  most \<open>limit\<close>, which \<open>splitText\<close> sets to \<open>chunkSize\<close>.
\<close>

fun splitUnits :: "nat \<Rightarrow> string list \<Rightarrow> string \<Rightarrow> string list" where
  "splitUnits limit [] text = (if length text \<le> limit then [text] else map (\<lambda>c. [c]) text)"
| "splitUnits limit (sep # seps) text =
     (if length text \<le> limit then [text]
      else concat (map (splitUnits limit seps) (splitAfter sep [] text)))"

text \<open>Modelled from the spec: "the last chunkOverlap characters" of a chunk.\<close>

definition lastChars :: "nat \<Rightarrow> string \<Rightarrow> string" where
  "lastChars n s = drop (length s - n) s"

text \<open>
  Modelled from the spec: "build output chunks by greedily packing split units up to
  chunkSize, carrying the last chunkOverlap characters of each chunk as a
  prefix-context for the next chunk".
\<close>

fun mergeUnits :: "nat \<Rightarrow> nat \<Rightarrow> string \<Rightarrow> string list \<Rightarrow> string list" where
  "mergeUnits csize overlap cur [] = (if cur = [] then [] else [cur])"
| "mergeUnits csize overlap cur (u # us) =
     (if length cur + length u \<le> csize then mergeUnits csize overlap (cur @ u) us
      else cur # mergeUnits csize overlap (lastChars overlap cur @ u) us)"

text \<open>
  Modelled from the spec: \<open>splitText\<close>. "Empty input yields an empty sequence. If
  text.length <= chunkSize, return [text] unchanged. Otherwise" split into units and
  pack them.
\<close>

definition splitText :: "TextSplitterParams \<Rightarrow> string \<Rightarrow> string list" where
  "splitText sp text =
     (if text = [] then []
      else if int (length text) \<le> chunkSize sp then [text]
      else mergeUnits (nat (chunkSize sp)) (nat (chunkOverlap sp)) []
             (splitUnits (nat (chunkSize sp)) separators text))"

section \<open>Concrete inputs\<close>

text \<open>
  A small world in which the theorems below are evaluated: the language model answers
  the first expansion with two sub-queries, the expansion that follows the learning
  \<open>LA\<close> with one, and rejects every other expansion; every search returns one URL
  shared by all queries and one of its own.
\<close>

definition sqA :: SerpQuery where
  "sqA = \<lparr> query = ''a'', researchGoal = ''goal a'' \<rparr>"

definition sqB :: SerpQuery where
  "sqB = \<lparr> query = ''b'', researchGoal = ''goal b'' \<rparr>"

definition sqC :: SerpQuery where
  "sqC = \<lparr> query = ''c'', researchGoal = ''goal c'' \<rparr>"

definition exQueries :: "string \<Rightarrow> string list \<Rightarrow> int \<Rightarrow> error + SerpQuery list" where
  "exQueries q ls n =
     (if ls = [] then Inr [sqA, sqB]
      else if ls = [''LA''] then Inr [sqC]
      else Inl (Error ''quota exceeded''))"

definition exSearch :: "string \<Rightarrow> error + SearchResponse" where
  "exSearch q =
     Inr [\<lparr> url = Some ''u/shared'', markdown = Some ''text'' \<rparr>,
          \<lparr> url = Some (''u/'' @ q), markdown = None \<rparr>]"

definition exLearnings :: "string \<Rightarrow> SearchResponse \<Rightarrow> int \<Rightarrow> error + LearningBatch" where
  "exLearnings q result n =
     Inr \<lparr> batchLearnings = [if q = ''a'' then ''LA'' else if q = ''b'' then ''LB'' else ''LC''],
           followUpQuestions = [] \<rparr>"

definition exOriginal :: Contact where
  "exOriginal =
     \<lparr> name = ''John Doe'', email = ''john.doe@techcorp.com'', company = ''TechCorp'',
       tags = [''AI'', ''CEO''], position = ''CEO'', city = ''San Francisco'',
       stateProvince = ''California'', country = ''United States'',
       number = Some ''(555) 123-4567'', timeZone = ''PST'', department = Some ''Executive'',
       priority = 9, signal = ''Actively hiring AI talent'', signalLevel = ''8'',
       compliment = ''Visionary leader'', industry = ''Technology'',
       links = ''https://techcorp.com'', source = ''deep-research'' \<rparr>"

definition exNewEmail :: Contact where
  "exNewEmail = exOriginal \<lparr> email := ''new.email@techcorp.com'' \<rparr>"

definition exByName :: Contact where
  "exByName = exOriginal \<lparr> name := ''Dr. John Doe'', email := ''jd@other.org'',
                 company := ''Other Company'', position := ''Advisor'' \<rparr>"

definition exByEmail :: Contact where
  "exByEmail = exOriginal \<lparr> name := ''J. D.'', email := ''John.Doe@TechCorp.com'' \<rparr>"

definition exSecond :: Contact where
  "exSecond = exOriginal \<lparr> name := ''Jane Smith'', email := ''jane.smith@dataflow.com'',
                 company := ''DataFlow Inc.'', position := ''CTO'', number := None \<rparr>"

definition exEnv :: env where
  "exEnv = \<lparr> bypass = False, generateObjectQueries = exQueries, firecrawlSearch = exSearch,
             generateObjectLearnings = exLearnings,
             generateObjectContacts = (\<lambda>ls hierarchy. Inr [exNewEmail]),
             mockContacts = [], shuffle = rev, toLowerCase = asciiLowerCase \<rparr>"

definition exDownEnv :: env where
  "exDownEnv =
     exEnv \<lparr> generateObjectQueries := (\<lambda>q ls n. Inl (Error ''service unavailable'')) \<rparr>"

definition exPromoted :: Contact where
  "exPromoted = exOriginal \<lparr> position := ''Chief Executive Officer'' \<rparr>"


definition exBypassEnv :: env where
  "exBypassEnv = exEnv \<lparr> bypass := True, mockContacts := [exPromoted] \<rparr>"

definition exCriteria :: AuditingCriteria where
  "exCriteria = \<lparr> sampleSize = 1, verificationDepth = 1 \<rparr>"

section \<open>Library lemmas\<close>

lemma foldl_setAdd_distinct: "distinct acc \<Longrightarrow> distinct (foldl setAdd acc xs)"
  by (induction xs arbitrary: acc) (simp_all add: setAdd_def)

lemma foldl_setAdd_set: "set (foldl setAdd acc xs) = set acc \<union> set xs"
  by (induction xs arbitrary: acc) (auto simp add: setAdd_def)

lemma distinct_newSet: "distinct (newSet xs)"
  by (simp add: newSet_def foldl_setAdd_distinct)

lemma set_newSet: "set (newSet xs) = set xs"
  by (simp add: newSet_def foldl_setAdd_set)

lemma promiseAll_map_Inr: "promiseAll (map Inr vs) = Inr vs"
  by (induction vs) simp_all

lemma promiseAll_Inr_D: "promiseAll ps = Inr vs \<Longrightarrow> ps = map Inr vs"
proof (induction ps arbitrary: vs)
  case Nil
  then show ?case by auto
next
  case (Cons p ps)
  then show ?case by (cases p) (auto split: sum.splits)
qed

lemma promiseAll_append:
  "promiseAll ps = Inr vs \<Longrightarrow> promiseAll qs = Inr ws \<Longrightarrow> promiseAll (ps @ qs) = Inr (vs @ ws)"
  by (auto dest!: promiseAll_Inr_D simp add: promiseAll_map_Inr simp flip: map_append)

lemma slice0_subset: "set (slice0 xs n) \<subseteq> set xs"
  by (auto simp add: slice0_def dest: in_set_takeD)

lemma mapSet_present_keys: "k \<in> fst ` set m \<Longrightarrow> map fst (mapSet k v m) = map fst m"
  by (induction m) force+

lemma mapSet_absent: "k \<notin> fst ` set m \<Longrightarrow> mapSet k v m = m @ [(k, v)]"
  by (induction m) auto

lemma mapSet_other: "i < length m \<Longrightarrow> fst (m ! i) \<noteq> k \<Longrightarrow> mapSet k v m ! i = m ! i"
proof (induction m arbitrary: i)
  case Nil
  then show ?case by simp
next
  case (Cons p m)
  then show ?case by (cases i; cases p) auto
qed

section \<open>The research scheduler: properties\<close>

text \<open>The defining equation of \<open>deepResearch\<close>, with the branch and the merge named.\<close>

lemma deepResearch_unfold:
  "deepResearch env q breadth depth ls urls =
     (if bypass env then Inr mockResult
      else case generateSerpQueries env q breadth ls of
             Inl e \<Rightarrow> Inl e
           | Inr serpQueries \<Rightarrow>
               (case promiseAll (map (researchBranch env breadth depth ls urls) serpQueries) of
                  Inl e \<Rightarrow> Inl e
                | Inr results \<Rightarrow> Inr (mergeResults results)))"
  unfolding researchBranch_def mergeResults_def
  by (subst deepResearch.simps) (rule refl)

lemmas ex_defs = exEnv_def exQueries_def exSearch_def exLearnings_def sqA_def sqB_def sqC_def
  generateSerpQueries_def processSerpResult_def slice0_def researchBranch_def mergeResults_def
  newSet_def setAdd_def ceilHalf_def emptyResult_def

lemma distinct_mockResult:
  "distinct (learnings mockResult) \<and> distinct (visitedUrls mockResult)"
  by (simp add: mockResult_def)

lemma distinct_mergeResults:
  "distinct (learnings (mergeResults rs)) \<and> distinct (visitedUrls (mergeResults rs))"
  by (simp add: mergeResults_def distinct_newSet)

text \<open>
  What the code does with a breadth of zero: the language model is still asked for
  sub-queries; when it answers, none is dispatched and the result is empty.
\<close>

lemma deepResearch_zero_breadth:
  assumes "\<not> bypass env" and "generateObjectQueries env q ls 0 = Inr queries"
  shows "deepResearch env q 0 depth ls urls = Inr emptyResult"
  using assms
  by (simp add: deepResearch_unfold generateSerpQueries_def slice0_def mergeResults_def
      newSet_def emptyResult_def)

text \<open>
  A branch whose search or whose extraction of learnings fails resolves to the empty
  result, and a branch at the last level always resolves.
\<close>

lemma researchBranch_search_failure:
  "firecrawlSearch env (query sq) = Inl e \<Longrightarrow>
   researchBranch env breadth depth ls urls sq = Inr emptyResult"
  by (simp add: researchBranch_def)

lemma researchBranch_extraction_failure:
  "firecrawlSearch env (query sq) = Inr res \<Longrightarrow>
   processSerpResult env (query sq) res (ceilHalf breadth) = Inl e \<Longrightarrow>
   researchBranch env breadth depth ls urls sq = Inr emptyResult"
  by (simp add: researchBranch_def)

lemma researchBranch_last_level:
  "depth \<le> 1 \<Longrightarrow> \<exists>r. researchBranch env breadth depth ls urls sq = Inr r"
  by (simp add: researchBranch_def split: sum.splits)

lemma mergeResults_emptyResult:
  "mergeResults (rs1 @ emptyResult # rs2) = mergeResults (rs1 @ rs2)"
  by (simp add: mergeResults_def emptyResult_def)

text \<open>
  A failed search among resolving siblings: the parent resolves, and its result is the
  merge of the siblings' results.
\<close>

lemma deepResearch_failed_search_isolated:
  assumes "\<not> bypass env"
    and "generateSerpQueries env q breadth ls = Inr (pre @ sq # post)"
    and "firecrawlSearch env (query sq) = Inl e"
    and "promiseAll (map (researchBranch env breadth depth ls urls) pre) = Inr rs1"
    and "promiseAll (map (researchBranch env breadth depth ls urls) post) = Inr rs2"
  shows "deepResearch env q breadth depth ls urls = Inr (mergeResults (rs1 @ rs2))"
proof -
  let ?f = "researchBranch env breadth depth ls urls"
  have "?f sq = Inr emptyResult"
    using assms(3) by (rule researchBranch_search_failure)
  then have "promiseAll (map ?f (sq # post)) = Inr (emptyResult # rs2)"
    using assms(5) by simp
  with assms(4) have "promiseAll (map ?f (pre @ sq # post)) = Inr (rs1 @ emptyResult # rs2)"
    by (simp add: promiseAll_append)
  with assms(1,2) show ?thesis
    by (simp add: deepResearch_unfold mergeResults_emptyResult)
qed

text \<open>
  Claim C1. The claim: with \<open>breadth <= 0\<close> or \<open>depth <= 0\<close> the scheduler returns the
  empty result at once, without search or extraction. The code has no such guard. At
  breadth 1 and depth 0 it asks for sub-queries, searches the first one, extracts its
  learnings and returns them, as it does at depth 1: the result is not empty. At
  breadth -1 and depth 1, \<open>slice(0, -1)\<close> drops the last of the two sub-queries and
  the first one is searched.
\<close>

theorem deepResearch_depth_zero_runs_one_level:
  "deepResearch exEnv ''q'' 1 0 [] [] =
     Inr \<lparr> learnings = [''LA''], visitedUrls = [''u/shared'', ''u/a''] \<rparr>
   \<and> deepResearch exEnv ''q'' (- 1) 1 [] [] =
     Inr \<lparr> learnings = [''LA''], visitedUrls = [''u/shared'', ''u/a''] \<rparr>"
  by (simp add: deepResearch_unfold ex_defs)

text \<open>
  Claim C4. Whenever \<open>deepResearch\<close> returns a result, at any depth and for any
  answers of the collaborators, neither the learnings nor the visited URLs of the
  result contain a duplicate.
\<close>

theorem deepResearch_no_duplicates:
  assumes "deepResearch env q breadth depth ls urls = Inr r"
  shows "distinct (learnings r) \<and> distinct (visitedUrls r)"
proof (cases "bypass env")
  case True
  with assms have "r = mockResult"
    by (simp add: deepResearch_unfold)
  then show ?thesis using distinct_mockResult by simp
next
  case False
  with assms obtain results where "r = mergeResults results"
    by (auto simp add: deepResearch_unfold split: sum.splits)
  then show ?thesis by (simp add: distinct_mergeResults)
qed

text \<open>
  Two sibling branches discover \<open>u/shared\<close>; the merged result lists it once.
\<close>

theorem deepResearch_no_duplicates_witness:
  "deepResearch exEnv ''q'' 2 1 [] [] =
     Inr \<lparr> learnings = [''LA'', ''LB''], visitedUrls = [''u/shared'', ''u/a'', ''u/b''] \<rparr>
   \<and> distinct [''LA'', ''LB''] \<and> distinct [''u/shared'', ''u/a'', ''u/b'']"
proof -
  have h: "deepResearch exEnv ''q'' 2 1 [] [] =
     Inr \<lparr> learnings = [''LA'', ''LB''], visitedUrls = [''u/shared'', ''u/a'', ''u/b''] \<rparr>"
    by (simp add: deepResearch_unfold ex_defs)
  from deepResearch_no_duplicates[OF h] h show ?thesis by simp
qed

text \<open>
  Claim C5. The claim: a failing branch contributes the empty result and its failure
  never reaches the parent. The code contains the failure of the search and of the
  extraction (lemmas \<open>researchBranch_search_failure\<close>,
  \<open>researchBranch_extraction_failure\<close>, \<open>deepResearch_failed_search_isolated\<close>), but
  not the failure of the recursive call, which is returned without \<open>await\<close>. At
  breadth 2 and depth 2 the branch of sub-query \<open>a\<close> resolves with its learnings, the
  recursive call of the branch of sub-query \<open>b\<close> is rejected by the language model,
  and the parent call is rejected with that error: the learnings of \<open>a\<close> are lost.
\<close>

theorem deepResearch_nested_failure_propagates:
  "researchBranch exEnv 2 2 [] [] sqA =
     Inr \<lparr> learnings = [''LA'', ''LC''], visitedUrls = [''u/shared'', ''u/a'', ''u/c''] \<rparr>
   \<and> researchBranch exEnv 2 2 [] [] sqB = Inl (Error ''quota exceeded'')
   \<and> deepResearch exEnv ''q'' 2 2 [] [] = Inl (Error ''quota exceeded'')"
  by (simp add: deepResearch_unfold ex_defs)

section \<open>The audit engine: properties\<close>

lemmas contact_defs = exOriginal_def exNewEmail_def exByName_def exByEmail_def exSecond_def

lemma foldl_mapSet_fresh:
  "distinct (map fst m @ map email cs) \<Longrightarrow>
   foldl (\<lambda>m c. mapSet (email c) c m) m cs = m @ map (\<lambda>c. (email c, c)) cs"
proof (induction cs arbitrary: m)
  case Nil
  then show ?case by simp
next
  case (Cons c cs)
  from Cons.prems have fresh: "email c \<notin> fst ` set m" by auto
  from Cons.prems have "distinct (map fst (m @ [(email c, c)]) @ map email cs)" by auto
  from Cons.IH[OF this] fresh show ?case by (simp add: mapSet_absent)
qed

lemma initialMap_distinct:
  "distinct (map email cs) \<Longrightarrow> initialMap cs = map (\<lambda>c. (email c, c)) cs"
  using foldl_mapSet_fresh[of "[]" cs] by (simp add: initialMap_def)

lemma auditLoop_keys:
  "email ` set cs \<subseteq> fst ` set m \<Longrightarrow>
   map fst (fst (auditLoop env oq d cs (m, acc))) = map fst m"
proof (induction cs arbitrary: m acc)
  case Nil
  then show ?case by simp
next
  case (Cons c cs)
  let ?m' = "mapSet (email c) (verifiedContact (verifyContact env c oq d)) m"
  from Cons.prems have k: "map fst ?m' = map fst m" by (simp add: mapSet_present_keys)
  then have "fst ` set ?m' = fst ` set m" by (metis set_map)
  with Cons.prems have "email ` set cs \<subseteq> fst ` set ?m'" by simp
  from Cons.IH[OF this] k show ?case by (simp add: Let_def)
qed

lemma auditLoop_untouched:
  "email ` set cs \<subseteq> fst ` set m \<Longrightarrow> i < length m \<Longrightarrow> fst (m ! i) \<notin> email ` set cs \<Longrightarrow>
   fst (auditLoop env oq d cs (m, acc)) ! i = m ! i"
proof (induction cs arbitrary: m acc)
  case Nil
  then show ?case by simp
next
  case (Cons c cs)
  let ?m' = "mapSet (email c) (verifiedContact (verifyContact env c oq d)) m"
  from Cons.prems have k: "map fst ?m' = map fst m" by (simp add: mapSet_present_keys)
  then have s: "fst ` set ?m' = fst ` set m" by (metis set_map)
  from k have l: "length ?m' = length m" by (metis length_map)
  from Cons.prems have same: "?m' ! i = m ! i" by (simp add: mapSet_other)
  from Cons.prems s have 1: "email ` set cs \<subseteq> fst ` set ?m'" by simp
  from Cons.prems l have 2: "i < length ?m'" by simp
  from Cons.prems same have 3: "fst (?m' ! i) \<notin> email ` set cs" by simp
  from Cons.IH[OF 1 2 3] same show ?case by (simp add: Let_def)
qed

lemma getRandomSample_subset:
  "mset (shuffled array) = mset array \<Longrightarrow> set (getRandomSample shuffled array n) \<subseteq> set array"
  using slice0_subset[of "shuffled array" n] mset_eq_setD[of "shuffled array" array]
  by (auto simp add: getRandomSample_def)

text \<open>
  Claim C2. The claim: the merged record keeps the email of the original whenever the
  original has one. The code writes \<open>email: verifiedContact.email || contact.email\<close>:
  the email of the matched candidate wins whenever it is not empty. For an original
  with email \<open>john.doe@techcorp.com\<close> and a candidate that differs in its email only,
  the audited record carries the email of the candidate.
\<close>

theorem auditContacts_takes_candidate_email:
  "email exOriginal = ''john.doe@techcorp.com''
   \<and> findMatch exEnv exOriginal [exNewEmail] = Some exNewEmail
   \<and> email (mergeContact exOriginal exNewEmail) = ''new.email@techcorp.com''
   \<and> map email (verifiedContacts (auditContacts exEnv [exOriginal] exCriteria ''test query''))
       = [''new.email@techcorp.com'']"
  by code_simp

text \<open>
  Claim C3, as stated: the candidate is chosen by priority, an email match before any
  other rule. It fails on the code: with a first candidate that matches by name only
  and a second that matches by email, the priority order of the specification takes
  the second, the code the first.
\<close>

theorem findMatch_not_by_priority:
  "emailMatch exEnv exOriginal exByEmail
   \<and> selectByPriority exEnv exOriginal [exByName, exByEmail] = Some exByEmail
   \<and> findMatch exEnv exOriginal [exByName, exByEmail] = Some exByName
   \<and> exByName \<noteq> exByEmail"
  by code_simp

text \<open>
  Claim C3, amended. For a non-empty list of candidates the code takes the first
  candidate, in the order returned, that satisfies \<open>isMatch\<close>: its name contains the
  original's name, or the emails are equal, or the companies are equal and its
  position contains the original's position, each compared after
  \<open>String.prototype.toLowerCase\<close>, whatever that function folds. When no candidate
  satisfies it, the code takes the first candidate.
\<close>

theorem findMatch_first_satisfying:
  assumes "candidates \<noteq> []"
  shows "(\<exists>i < length candidates.
            isMatch env contact (candidates ! i)
            \<and> (\<forall>j < i. \<not> isMatch env contact (candidates ! j))
            \<and> findMatch env contact candidates = Some (candidates ! i))
       \<or> ((\<forall>c \<in> set candidates. \<not> isMatch env contact c)
            \<and> findMatch env contact candidates = Some (candidates ! 0))"
proof (cases "find (isMatch env contact) candidates")
  case None
  then have "\<forall>c \<in> set candidates. \<not> isMatch env contact c" by (simp add: find_None_iff)
  moreover from None assms have "findMatch env contact candidates = Some (candidates ! 0)"
    by (cases candidates) (simp_all add: findMatch_def)
  ultimately show ?thesis by blast
next
  case (Some c)
  then obtain i where "i < length candidates" "isMatch env contact (candidates ! i)"
    "c = candidates ! i" "\<forall>j < i. \<not> isMatch env contact (candidates ! j)"
    by (auto simp add: find_Some_iff)
  moreover from Some have "findMatch env contact candidates = Some c"
    by (simp add: findMatch_def)
  ultimately show ?thesis by blast
qed

theorem findMatch_first_satisfying_witness:
  "[exByName, exByEmail] \<noteq> []
   \<and> isMatch exEnv exOriginal exByName
   \<and> findMatch exEnv exOriginal [exByName, exByEmail] = Some ([exByName, exByEmail] ! 0)"
proof -
  have ne: "[exByName, exByEmail] \<noteq> []" by simp
  have ev: "isMatch exEnv exOriginal exByName
      \<and> findMatch exEnv exOriginal [exByName, exByEmail] = Some ([exByName, exByEmail] ! 0)"
    by code_simp
  from findMatch_first_satisfying[OF ne, of exEnv exOriginal] ne ev show ?thesis by blast
qed

text \<open>
  Claim C6. For records with pairwise distinct emails, and a shuffle that returns a
  permutation of its argument, the verified list has the length of the input, and
  every record that is not in the sample stands unchanged at its position; for every
  sample size, also one that is at least the number of records.
\<close>

theorem auditContacts_length_and_passthrough:
  assumes dist: "distinct (map email contacts)"
    and perm: "mset (shuffle env contacts) = mset contacts"
  shows "length (verifiedContacts (auditContacts env contacts criteria originalQuery)) = length contacts
       \<and> (\<forall>i < length contacts.
            contacts ! i \<notin> set (getRandomSample (shuffle env) contacts (sampleSize criteria)) \<longrightarrow>
            verifiedContacts (auditContacts env contacts criteria originalQuery) ! i = contacts ! i)"
proof (cases "contacts = [] \<or> bypass env")
  case True
  then show ?thesis by (auto simp add: auditContacts_def)
next
  case False
  let ?sample = "getRandomSample (shuffle env) contacts (sampleSize criteria)"
  let ?m0 = "initialMap contacts"
  let ?st = "auditLoop env originalQuery (verificationDepth criteria) ?sample (?m0, [])"
  have m0: "?m0 = map (\<lambda>c. (email c, c)) contacts"
    using dist by (rule initialMap_distinct)
  have res: "verifiedContacts (auditContacts env contacts criteria originalQuery) = map snd (fst ?st)"
    using False by (simp add: auditContacts_def mapValues_def Let_def split: prod.splits)
  have sub: "set ?sample \<subseteq> set contacts"
    using perm by (rule getRandomSample_subset)
  have keys0: "fst ` set ?m0 = email ` set contacts"
    unfolding m0 by force
  from sub keys0 have pre: "email ` set ?sample \<subseteq> fst ` set ?m0" by auto
  have keys: "map fst (fst ?st) = map fst ?m0"
    using pre by (rule auditLoop_keys)
  have len: "length (fst ?st) = length contacts"
    using keys m0 by (metis length_map)
  have pass: "map snd (fst ?st) ! i = contacts ! i"
    if i: "i < length contacts" and ns: "contacts ! i \<notin> set ?sample" for i
  proof -
    have li: "i < length ?m0" using i m0 by simp
    have ki: "fst (?m0 ! i) = email (contacts ! i)" using i m0 by simp
    have "email (contacts ! i) \<notin> email ` set ?sample"
    proof
      assume "email (contacts ! i) \<in> email ` set ?sample"
      then obtain s where s: "s \<in> set ?sample" "email s = email (contacts ! i)" by auto
      from s(1) sub have "s \<in> set contacts" by auto
      moreover have "contacts ! i \<in> set contacts" using i by simp
      moreover from dist have "inj_on email (set contacts)" by (simp add: distinct_map)
      ultimately have "s = contacts ! i" using s(2) by (auto dest: inj_onD)
      with s(1) ns show False by simp
    qed
    with ki have "fst (?m0 ! i) \<notin> email ` set ?sample" by simp
    from auditLoop_untouched[OF pre li this]
    have "fst ?st ! i = ?m0 ! i" .
    then show ?thesis using i len m0 by simp
  qed
  from len pass show ?thesis unfolding res by simp
qed

theorem auditContacts_length_and_passthrough_witness:
  "distinct (map email [exOriginal, exSecond])
   \<and> mset (shuffle exEnv [exOriginal, exSecond]) = mset [exOriginal, exSecond]
   \<and> getRandomSample (shuffle exEnv) [exOriginal, exSecond] (sampleSize exCriteria) = [exSecond]
   \<and> length (verifiedContacts (auditContacts exEnv [exOriginal, exSecond] exCriteria ''test query'')) = 2
   \<and> verifiedContacts (auditContacts exEnv [exOriginal, exSecond] exCriteria ''test query'') ! 0
       = exOriginal"
proof -
  have d: "distinct (map email [exOriginal, exSecond])"
    by (simp add: contact_defs)
  have p: "mset (shuffle exEnv [exOriginal, exSecond]) = mset [exOriginal, exSecond]"
    by (simp add: exEnv_def)
  have s: "getRandomSample (shuffle exEnv) [exOriginal, exSecond] (sampleSize exCriteria) = [exSecond]"
    by (simp add: getRandomSample_def slice0_def exEnv_def exCriteria_def)
  have n: "exOriginal \<noteq> exSecond"
    by (simp add: contact_defs)
  from auditContacts_length_and_passthrough[OF d p, of exCriteria "''test query''"] d p s n
  show ?thesis by simp
qed

text \<open>
  What the code contains: when the research call as a whole is rejected, the
  extraction is rejected, or the extraction returns no record (as it does when every
  search has failed and no learning is left), \<open>verifyContact\<close> returns the record
  unchanged with no corrections, and the loop goes on with the remaining sample.
\<close>

lemma verifyContact_whole_failure_unchanged:
  assumes "(\<exists>e. deepResearch env (verificationQuery contact originalQuery) 2 depth [] [] = Inl e)
         \<or> (\<exists>r. deepResearch env (verificationQuery contact originalQuery) 2 depth [] [] = Inr r
              \<and> ((\<exists>e. generateContactsFromLearnings env (learnings r) [position contact] = Inl e)
                 \<or> generateContactsFromLearnings env (learnings r) [position contact] = Inr []))"
  shows "verifyContact env contact originalQuery depth
           = \<lparr> verifiedContact = contact, corrections = [] \<rparr>
       \<and> auditLoop env originalQuery depth (contact # rest) (m, acc)
           = auditLoop env originalQuery depth rest (mapSet (email contact) contact m, acc)"
proof -
  from assms have v: "verifyContact env contact originalQuery depth = unverified contact"
    by (auto simp add: verifyContact_def findMatch_def)
  then show ?thesis by (simp add: unverified_def)
qed


text \<open>The sample: its size and its elements.\<close>

lemma getRandomSample_size_and_subset:
  assumes "mset (shuffled array) = mset array" and "0 \<le> n"
  shows "length (getRandomSample shuffled array n) = min (nat n) (length array)
       \<and> mset (getRandomSample shuffled array n) \<subseteq># mset array"
proof (cases "int (length array) \<le> n")
  case True
  then have "length array \<le> nat n" by linarith
  with True show ?thesis by (simp add: getRandomSample_def)
next
  case False
  have len: "length (shuffled array) = length array"
    using assms(1) by (metis size_mset)
  have "mset (take (nat n) (shuffled array)) \<subseteq># mset (shuffled array)"
    by (metis append_take_drop_id mset_append mset_subset_eq_add_left)
  with False assms len show ?thesis
    by (simp add: getRandomSample_def slice0_def min_def)
qed

text \<open>
  Claim C8, as stated: the audit engine selects \<open>min(sampleSize, records.length)\<close>
  records for verification. It fails in bypass mode: with two records and a sample
  size of one, \<open>auditContacts\<close> returns before it samples. It hands back both records
  as they came, with the two fixed corrections, although the verification of either
  record would have changed it: no record was selected.
\<close>

theorem auditContacts_bypass_selects_nothing:
  "bypass exBypassEnv
   \<and> min (nat (sampleSize exCriteria)) (length [exOriginal, exSecond]) = 1
   \<and> auditContacts exBypassEnv [exOriginal, exSecond] exCriteria ''test query''
       = \<lparr> verifiedContacts = [exOriginal, exSecond],
           allCorrections = mockCorrections [exOriginal, exSecond] \<rparr>
   \<and> verifiedContact (verifyContact exBypassEnv exOriginal ''test query'' 1) \<noteq> exOriginal
   \<and> verifiedContact (verifyContact exBypassEnv exSecond ''test query'' 1) \<noteq> exSecond"
  by code_simp

text \<open>
  Claim C8, amended. Outside bypass mode, for a sample size that is not negative and
  a shuffle that returns a permutation of its argument: \<open>auditContacts\<close> verifies
  exactly the records of \<open>getRandomSample(contacts, criteria.sampleSize)\<close>, its
  result is the result of the verification loop over them, and they are
  \<open>min(sampleSize, records.length)\<close> records forming a sub-multiset of the input: no
  record is taken more often than it occurs.
\<close>

theorem auditContacts_verifies_sample:
  assumes "\<not> bypass env"
    and "mset (shuffle env contacts) = mset contacts"
    and "0 \<le> sampleSize criteria"
  shows "length (getRandomSample (shuffle env) contacts (sampleSize criteria))
           = min (nat (sampleSize criteria)) (length contacts)
       \<and> mset (getRandomSample (shuffle env) contacts (sampleSize criteria)) \<subseteq># mset contacts
       \<and> auditContacts env contacts criteria originalQuery
           = \<lparr> verifiedContacts =
                 mapValues (fst (auditLoop env originalQuery (verificationDepth criteria)
                   (getRandomSample (shuffle env) contacts (sampleSize criteria))
                   (initialMap contacts, []))),
               allCorrections =
                 snd (auditLoop env originalQuery (verificationDepth criteria)
                   (getRandomSample (shuffle env) contacts (sampleSize criteria))
                   (initialMap contacts, [])) \<rparr>"
proof -
  have run: "auditContacts env contacts criteria originalQuery
           = \<lparr> verifiedContacts =
                 mapValues (fst (auditLoop env originalQuery (verificationDepth criteria)
                   (getRandomSample (shuffle env) contacts (sampleSize criteria))
                   (initialMap contacts, []))),
               allCorrections =
                 snd (auditLoop env originalQuery (verificationDepth criteria)
                   (getRandomSample (shuffle env) contacts (sampleSize criteria))
                   (initialMap contacts, [])) \<rparr>"
  proof (cases "contacts = []")
    case True
    with assms(3) show ?thesis
      by (simp add: auditContacts_def getRandomSample_def initialMap_def mapValues_def)
  next
    case False
    with assms(1) show ?thesis
      by (simp add: auditContacts_def Let_def split: prod.splits)
  qed
  from getRandomSample_size_and_subset[of "shuffle env" contacts "sampleSize criteria"]
    assms(2,3) run
  show ?thesis by simp
qed

theorem auditContacts_verifies_sample_witness:
  "\<not> bypass exEnv
   \<and> mset (shuffle exEnv [exOriginal, exSecond]) = mset [exOriginal, exSecond]
   \<and> (0::int) \<le> sampleSize exCriteria
   \<and> getRandomSample (shuffle exEnv) [exOriginal, exSecond] (sampleSize exCriteria) = [exSecond]
   \<and> length [exSecond] = min (nat (sampleSize exCriteria)) (length [exOriginal, exSecond])
   \<and> auditContacts exEnv [exOriginal, exSecond] exCriteria ''test query''
       = \<lparr> verifiedContacts =
             mapValues (fst (auditLoop exEnv ''test query'' (verificationDepth exCriteria)
               [exSecond] (initialMap [exOriginal, exSecond], []))),
           allCorrections =
             snd (auditLoop exEnv ''test query'' (verificationDepth exCriteria)
               [exSecond] (initialMap [exOriginal, exSecond], [])) \<rparr>"
proof -
  have b: "\<not> bypass exEnv" by (simp add: exEnv_def)
  have p: "mset (shuffle exEnv [exOriginal, exSecond]) = mset [exOriginal, exSecond]"
    by (simp add: exEnv_def)
  have n: "(0::int) \<le> sampleSize exCriteria" by (simp add: exCriteria_def)
  have s: "getRandomSample (shuffle exEnv) [exOriginal, exSecond] (sampleSize exCriteria) = [exSecond]"
    by (simp add: getRandomSample_def slice0_def exEnv_def exCriteria_def)
  from auditContacts_verifies_sample[OF b p n, of "''test query''"] b p n s
  show ?thesis by simp
qed

section \<open>The text chunker: properties\<close>



text \<open>
  The model meets the other two properties the specification asks of the chunker:
  without overlap the chunks concatenate to the text, and a non-empty text gives at
  least one chunk.
\<close>

lemma concat_splitAfter: "concat (splitAfter sep acc s) = acc @ s"
proof (induction sep acc s rule: splitAfter.induct)
  case (1 sep acc)
  then show ?case by simp
next
  case (2 sep acc c cs)
  show ?case
  proof (cases "sep \<noteq> [] \<and> prefix sep (c # cs)")
    case True
    then have "sep @ drop (length sep) (c # cs) = c # cs"
      by (metis append_eq_conv_conj prefix_def)
    with True 2 show ?thesis by simp
  next
    case False
    with 2 show ?thesis by auto
  qed
qed

lemma concat_splitUnits: "concat (splitUnits limit seps s) = s"
proof (induction seps arbitrary: s)
  case Nil
  show ?case by (induction s) auto
next
  case (Cons sep seps)
  have "concat (concat (map (splitUnits limit seps) ps)) = concat ps" for ps
    by (induction ps) (simp_all add: Cons.IH)
  then show ?case by (simp add: concat_splitAfter)
qed

lemma concat_mergeUnits_no_overlap: "concat (mergeUnits csize 0 cur us) = cur @ concat us"
  by (induction us arbitrary: cur) (simp_all add: lastChars_def)

lemma splitText_covers:
  "concat (splitText \<lparr> chunkSize = csize, chunkOverlap = 0 \<rparr> s) = s"
  by (simp add: splitText_def concat_mergeUnits_no_overlap concat_splitUnits)

lemma mergeUnits_nonempty: "cur \<noteq> [] \<or> (\<exists>u \<in> set us. u \<noteq> []) \<Longrightarrow> mergeUnits csize overlap cur us \<noteq> []"
proof (induction us arbitrary: cur)
  case Nil
  then show ?case by simp
next
  case (Cons u us)
  then show ?case by (cases "u = []") auto
qed

lemma splitText_nonempty:
  assumes "s \<noteq> []"
  shows "splitText sp s \<noteq> []"
proof (cases "int (length s) \<le> chunkSize sp")
  case True
  with assms show ?thesis by (simp add: splitText_def)
next
  case False
  let ?us = "splitUnits (nat (chunkSize sp)) separators s"
  have "concat ?us = s" by (rule concat_splitUnits)
  with assms have "\<exists>u \<in> set ?us. u \<noteq> []" by (metis concat_eq_Nil_conv)
  then have "mergeUnits (nat (chunkSize sp)) (nat (chunkOverlap sp)) [] ?us \<noteq> []"
    by (simp add: mergeUnits_nonempty)
  with False assms show ?thesis by (simp add: splitText_def)
qed

text \<open>
  Claim C9. Constructing the chunker with \<open>chunkOverlap >= chunkSize\<close> fails with a
  configuration error, returned by the constructor itself; with
  \<open>chunkOverlap < chunkSize\<close> the construction succeeds.
\<close>

theorem RecursiveCharacterTextSplitter_overlap_check:
  "(overlap \<ge> csize \<longrightarrow>
      (\<exists>msg. RecursiveCharacterTextSplitter csize overlap = Inl (ConfigurationError msg)))
   \<and> (overlap < csize \<longrightarrow>
      RecursiveCharacterTextSplitter csize overlap
        = Inr \<lparr> chunkSize = csize, chunkOverlap = overlap \<rparr>)"
  by (simp add: RecursiveCharacterTextSplitter_def)

theorem RecursiveCharacterTextSplitter_overlap_check_witness:
  "(10::int) \<ge> 10
   \<and> RecursiveCharacterTextSplitter 10 10
       = Inl (ConfigurationError ''Cannot have chunkOverlap >= chunkSize'')
   \<and> RecursiveCharacterTextSplitter 10 15
       = Inl (ConfigurationError ''Cannot have chunkOverlap >= chunkSize'')
   \<and> (2::int) < 10
   \<and> RecursiveCharacterTextSplitter 10 2 = Inr \<lparr> chunkSize = 10, chunkOverlap = 2 \<rparr>"
  using RecursiveCharacterTextSplitter_overlap_check[of 10 10]
    RecursiveCharacterTextSplitter_overlap_check[of 10 2]
  by (simp add: RecursiveCharacterTextSplitter_def)





end
